theory Spec2Isabelle
  imports Complex_Main "HOL-Library.Sublist"
begin

section \<open>Numbers\<close>

text \<open>
  The scorers compute on JavaScript numbers. Except where stated otherwise a number is
  modelled as a \<^typ>\<open>real\<close> and the arithmetic is exact; the two places where the
  difference to IEEE-754 doubles decides a property are modelled separately: the
  not-a-number value that \<open>0 / 0\<close> produces (type \<open>jsnum\<close>, used by the content
  balancer) and the rounding of every operation to the nearest double (function
  \<open>binary64\<close>, used by the report generator).
\<close>

section \<open>Constants (constants.ts)\<close>

definition FRESHNESS_THRESHOLDS_CRITICAL :: real where
  "FRESHNESS_THRESHOLDS_CRITICAL = 7"

definition FRESHNESS_THRESHOLDS_HIGH :: real where
  "FRESHNESS_THRESHOLDS_HIGH = 30"

definition FRESHNESS_THRESHOLDS_MEDIUM :: real where
  "FRESHNESS_THRESHOLDS_MEDIUM = 90"

definition FRESHNESS_THRESHOLDS_LOW :: real where
  "FRESHNESS_THRESHOLDS_LOW = 180"

section \<open>FreshnessMonitor\<close>

datatype urgency = Low | Medium | High | Critical

text \<open>A \<open>Date\<close> is its time value: milliseconds since the epoch.\<close>

record FreshnessScore =
  score :: real
  lastUpdated :: int
  competitorAverage :: real
  updateUrgency :: urgency

text \<open>
  What the freshness monitor reads from outside the document: the clock, once in
  \<open>extractLastUpdated\<close> (\<open>new Date()\<close> as the default) and once in
  \<open>calculateDaysSince\<close>, and one draw of \<open>Math.random()\<close>.
\<close>

record env =
  clock_extract :: int
  clock_days :: int
  math_random :: real

text \<open>
  What \<open>extractLastUpdated\<close> reads from the parsed document: for every element that
  matches the update selector, the result of \<open>Date.parse\<close> on its date string, and
  the same for every match of the date pattern in the text (\<open>None\<close> is \<open>NaN\<close>).
\<close>

record freshness_features =
  updateElements :: "int option list"
  dateMatches :: "int option list"

definition extractLastUpdated :: "int \<Rightarrow> freshness_features \<Rightarrow> int" where
  "extractLastUpdated now doc =
     (case updateElements doc of
        Some parsed # _ \<Rightarrow> parsed
      | _ \<Rightarrow>
        (case dateMatches doc of
           Some parsed # _ \<Rightarrow> parsed
         | _ \<Rightarrow> now))"

definition calculateDaysSince :: "int \<Rightarrow> int \<Rightarrow> real" where
  "calculateDaysSince now date =
     (let diffTime = \<bar>now - date\<bar>
      in of_int \<lceil>real_of_int diffTime / (1000 * 60 * 60 * 24)\<rceil>)"

definition getCompetitorFreshness :: "real \<Rightarrow> real" where
  "getCompetitorFreshness rnd = of_int \<lfloor>rnd * 60\<rfloor> + 15"

definition calculateFreshnessScore :: "real \<Rightarrow> real \<Rightarrow> real" where
  "calculateFreshnessScore daysSinceUpdate competitorAvg =
     (let s = 1;
          s = (if daysSinceUpdate > 7 then s - 0.1 else s);
          s = (if daysSinceUpdate > 30 then s - 0.2 else s);
          s = (if daysSinceUpdate > 60 then s - 0.2 else s);
          s = (if daysSinceUpdate > 90 then s - 0.2 else s);
          s = (if daysSinceUpdate > 180 then s - 0.3 else s);
          s = (if daysSinceUpdate < competitorAvg then s + 0.2 else s)
      in max 0 (min 1 s))"

definition determineUpdateUrgency :: "real \<Rightarrow> real \<Rightarrow> urgency" where
  "determineUpdateUrgency daysSinceUpdate competitorAvg =
     (if daysSinceUpdate > competitorAvg * 2 then Critical
      else if daysSinceUpdate > FRESHNESS_THRESHOLDS_CRITICAL then Critical
      else if daysSinceUpdate > FRESHNESS_THRESHOLDS_HIGH then High
      else if daysSinceUpdate > FRESHNESS_THRESHOLDS_MEDIUM then Medium
      else Low)"

definition checkFreshness :: "env \<Rightarrow> freshness_features \<Rightarrow> FreshnessScore" where
  "checkFreshness e doc =
     (let lastUpd = extractLastUpdated (clock_extract e) doc;
          daysSinceUpdate = calculateDaysSince (clock_days e) lastUpd;
          competitorAvg = getCompetitorFreshness (math_random e);
          sc = calculateFreshnessScore daysSinceUpdate competitorAvg;
          urg = determineUpdateUrgency daysSinceUpdate competitorAvg
      in \<lparr> score = sc, lastUpdated = lastUpd, competitorAverage = competitorAvg,
           updateUrgency = urg \<rparr>)"

section \<open>EEATSignalBuilder\<close>

datatype signal_type = author_bio | citation | credential | social_proof | review

text \<open>
  An \<open>EEATSignal\<close> carries its type and strength; the two display strings of the
  source (\<open>description\<close>, \<open>location\<close>) are read by no scorer and are left out.
\<close>

record EEATSignal =
  sig_type :: signal_type
  strength :: real

record EEATAnalysis =
  expertise :: real
  experience :: real
  authoritativeness :: real
  trustworthiness :: real
  signals :: "EEATSignal list"

text \<open>
  What the four signal analysers read from the parsed document: the text length of every
  author element, and the number of elements or of pattern matches for each selector
  and pattern (a \<open>match\<close> that returns \<open>null\<close> is the count 0). For the external
  links the flag says whether the \<open>href\<close> names an authoritative source.
\<close>

record eeat_features =
  authorElements :: "nat list"
  credentialMatches :: nat
  expertiseIndicators :: nat
  experienceMatches :: nat
  caseStudies :: nat
  testimonials :: nat
  citationElements :: nat
  externalLinks :: "bool list"
  dataMatches :: nat
  contactElements :: nat
  legalLinks :: nat
  securityMentioned :: bool
  dateElements :: nat

definition analyzeExpertise :: "eeat_features \<Rightarrow> EEATSignal list" where
  "analyzeExpertise doc =
     map (\<lambda>len. \<lparr> sig_type = author_bio, strength = (if len > 50 then 0.8 else 0.4) \<rparr>)
       (authorElements doc)
     @ (if credentialMatches doc > 0 then [\<lparr> sig_type = credential, strength = 0.7 \<rparr>] else [])
     @ replicate (expertiseIndicators doc) \<lparr> sig_type = credential, strength = 0.6 \<rparr>"

definition analyzeExperience :: "eeat_features \<Rightarrow> EEATSignal list" where
  "analyzeExperience doc =
     (if experienceMatches doc > 3
      then [\<lparr> sig_type = credential,
             strength = min (real (experienceMatches doc) * 0.1) 0.8 \<rparr>]
      else [])
     @ (if caseStudies doc > 0 then [\<lparr> sig_type = credential, strength = 0.7 \<rparr>] else [])
     @ (if testimonials doc > 0 then [\<lparr> sig_type = review, strength = 0.6 \<rparr>] else [])"

definition analyzeAuthoritativeness :: "eeat_features \<Rightarrow> EEATSignal list" where
  "analyzeAuthoritativeness doc =
     (let authoritativeLinks = length (filter (\<lambda>b. b) (externalLinks doc))
      in (if citationElements doc > 0
          then [\<lparr> sig_type = citation,
                 strength = min (real (citationElements doc) * 0.1) 0.9 \<rparr>]
          else [])
         @ (if authoritativeLinks > 0
            then [\<lparr> sig_type = citation,
                   strength = min (real authoritativeLinks * 0.15) 0.8 \<rparr>]
            else [])
         @ (if dataMatches doc > 2 then [\<lparr> sig_type = citation, strength = 0.6 \<rparr>] else []))"

definition analyzeTrustworthiness :: "eeat_features \<Rightarrow> EEATSignal list" where
  "analyzeTrustworthiness doc =
     (if contactElements doc > 0 then [\<lparr> sig_type = social_proof, strength = 0.6 \<rparr>] else [])
     @ (if legalLinks doc > 0 then [\<lparr> sig_type = social_proof, strength = 0.5 \<rparr>] else [])
     @ (if securityMentioned doc then [\<lparr> sig_type = social_proof, strength = 0.4 \<rparr>] else [])
     @ (if dateElements doc > 0 then [\<lparr> sig_type = social_proof, strength = 0.5 \<rparr>] else [])"

definition calculateSignalScore :: "EEATSignal list \<Rightarrow> real" where
  "calculateSignalScore sigs =
     (if length sigs = 0 then 0
      else let totalStrength = foldl (\<lambda>sum signal. sum + strength signal) 0 sigs
           in min (totalStrength / real (length sigs)) 1)"

definition analyzeEEATSignals :: "eeat_features \<Rightarrow> EEATAnalysis" where
  "analyzeEEATSignals doc =
     (let expertiseSignals = analyzeExpertise doc;
          experienceSignals = analyzeExperience doc;
          authoritativenessSignals = analyzeAuthoritativeness doc;
          trustworthinessSignals = analyzeTrustworthiness doc
      in \<lparr> expertise = calculateSignalScore expertiseSignals,
           experience = calculateSignalScore experienceSignals,
           authoritativeness = calculateSignalScore authoritativenessSignals,
           trustworthiness = calculateSignalScore trustworthinessSignals,
           signals = expertiseSignals @ experienceSignals
                     @ authoritativenessSignals @ trustworthinessSignals \<rparr>)"

section \<open>AICitationAnalyzer\<close>

definition CITATION_WORTHINESS_UNIQUE_DATA :: real where
  "CITATION_WORTHINESS_UNIQUE_DATA = 0.25"

definition CITATION_WORTHINESS_EXPERT_QUOTES :: real where
  "CITATION_WORTHINESS_EXPERT_QUOTES = 0.2"

definition CITATION_WORTHINESS_ORIGINAL_RESEARCH :: real where
  "CITATION_WORTHINESS_ORIGINAL_RESEARCH = 0.2"

definition CITATION_WORTHINESS_COMPREHENSIVE_COVERAGE :: real where
  "CITATION_WORTHINESS_COMPREHENSIVE_COVERAGE = 0.15"

record DataPoint =
  dp_value :: string
  dp_source :: string
  dp_unique :: bool
  verifiable :: bool

record ExpertQuote =
  quote :: string
  expert :: string
  credentials :: string
  quote_context :: string

record citation_data =
  uniqueInsights :: "string list"
  dataPoints :: "DataPoint list"
  originalResearch :: bool
  expertQuotes :: "ExpertQuote list"

text \<open>
  What the extractors find in the parsed document, in document order, before each of
  them cuts its result with \<open>slice\<close>.
\<close>

record citation_features =
  foundInsights :: "string list"
  foundDataPoints :: "DataPoint list"
  researchIndicator :: bool
  foundQuotes :: "ExpertQuote list"

definition extractUniqueInsights :: "citation_features \<Rightarrow> string list" where
  "extractUniqueInsights doc = take 5 (foundInsights doc)"

definition extractDataPoints :: "citation_features \<Rightarrow> DataPoint list" where
  "extractDataPoints doc = take 10 (foundDataPoints doc)"

definition detectOriginalResearch :: "citation_features \<Rightarrow> bool" where
  "detectOriginalResearch doc = researchIndicator doc"

definition extractExpertQuotes :: "citation_features \<Rightarrow> ExpertQuote list" where
  "extractExpertQuotes doc = take 5 (foundQuotes doc)"

definition calculateCitationWorthiness :: "citation_data \<Rightarrow> real" where
  "calculateCitationWorthiness d =
     (let s = 0;
          s = s + min (real (length (uniqueInsights d)) * 0.05) 0.25
                  * CITATION_WORTHINESS_UNIQUE_DATA;
          verifiableData = length (filter verifiable (dataPoints d));
          s = s + min (real verifiableData * 0.05) 0.25 * CITATION_WORTHINESS_UNIQUE_DATA;
          s = s + min (real (length (expertQuotes d)) * 0.04) 0.2
                  * CITATION_WORTHINESS_EXPERT_QUOTES;
          s = (if originalResearch d then s + CITATION_WORTHINESS_ORIGINAL_RESEARCH else s);
          totalElements = length (uniqueInsights d) + length (dataPoints d)
                          + length (expertQuotes d);
          s = (if totalElements > 10 then s + CITATION_WORTHINESS_COMPREHENSIVE_COVERAGE else s)
      in min s 1)"

definition analyzeCitationPotential :: "citation_features \<Rightarrow> real \<times> citation_data" where
  "analyzeCitationPotential doc =
     (let d = \<lparr> uniqueInsights = extractUniqueInsights doc,
                dataPoints = extractDataPoints doc,
                originalResearch = detectOriginalResearch doc,
                expertQuotes = extractExpertQuotes doc \<rparr>
      in (calculateCitationWorthiness d, d))"

section \<open>ContentStructurer\<close>

text \<open>
  The text of the document is a string of code units below 256. \<open>js_split P\<close> is
  \<open>split\<close> on the pattern "one or more characters of class \<open>P\<close>" and \<open>js_match P\<close>
  is \<open>match\<close> with the global flag on the same pattern (the empty list for \<open>null\<close>).
\<close>

function js_split :: "(char \<Rightarrow> bool) \<Rightarrow> string \<Rightarrow> string list" where
  "js_split P [] = [[]]"
| "js_split P (c # cs) =
     (if P c then [] # js_split P (dropWhile P cs)
      else (case js_split P cs of w # ws \<Rightarrow> (c # w) # ws | [] \<Rightarrow> [[c]]))"
  by pat_completeness auto
termination
  by (relation "measure (\<lambda>(P, s). length s)")
     (auto simp: le_imp_less_Suc length_dropWhile_le)

function js_match :: "(char \<Rightarrow> bool) \<Rightarrow> string \<Rightarrow> string list" where
  "js_match P [] = []"
| "js_match P (c # cs) =
     (if P c then (c # takeWhile P cs) # js_match P (dropWhile P cs)
      else js_match P cs)"
  by pat_completeness auto
termination
  by (relation "measure (\<lambda>(P, s). length s)")
     (auto simp: le_imp_less_Suc length_dropWhile_le)

definition is_space :: "char \<Rightarrow> bool" where
  "is_space c = (of_char c \<in> {9, 10, 11, 12, 13, 32, 160 :: nat})"

definition is_sentence_end :: "char \<Rightarrow> bool" where
  "is_sentence_end c = (c \<in> {CHR ''.'', CHR ''!'', CHR ''?''})"

text \<open>
  What the structure analysis reads from the parsed document: its text and the number of
  elements for each selector; \<open>faqsFound\<close> is the number of question and answer pairs
  that \<open>extractFAQs\<close> collects. Of the arrays of \<open>ContentStructure\<close> only the lengths
  are read by the scorer, and the model keeps the lengths.
\<close>

record structure_features =
  text_content :: string
  headingElements :: nat
  h2h3Elements :: nat
  faqsFound :: nat
  tableElements :: nat
  listElements :: nat

record ContentStructure =
  headings :: nat
  faqs :: nat
  tables :: nat
  lists :: nat
  readabilityScore :: real

definition calculateReadabilityScore :: "structure_features \<Rightarrow> real" where
  "calculateReadabilityScore doc =
     (let sentences = js_match is_sentence_end (text_content doc);
          wrds = js_split is_space (text_content doc);
          avgWordsPerSentence = real (length wrds) / real (max (length sentences) 1);
          s = 1;
          s = (if avgWordsPerSentence > 20 then s - 0.2 else s);
          s = (if avgWordsPerSentence > 25 then s - 0.3 else s);
          s = (if h2h3Elements doc > 3 then s + 0.1 else s);
          s = (if listElements doc > 0 then s + 0.1 else s);
          s = (if tableElements doc > 0 then s + 0.1 else s)
      in max 0 (min 1 s))"

definition calculateStructureScore :: "ContentStructure \<Rightarrow> real" where
  "calculateStructureScore st =
     (let s = readabilityScore st * 0.3;
          s = (if headings st > 3 then s + 0.2 else s);
          s = (if faqs st > 2 then s + 0.2 else s);
          s = (if tables st > 0 then s + 0.15 else s);
          s = (if lists st > 1 then s + 0.15 else s)
      in min 1 s)"

definition analyzeStructure :: "structure_features \<Rightarrow> real \<times> ContentStructure" where
  "analyzeStructure doc =
     (let st = \<lparr> headings = headingElements doc,
                 faqs = faqsFound doc,
                 tables = tableElements doc,
                 lists = listElements doc,
                 readabilityScore = calculateReadabilityScore doc \<rparr>
      in (calculateStructureScore st, st))"

section \<open>EntityOptimizer\<close>

text \<open>
  What the entity analysis reads from the parsed document: for every JSON-LD script the
  parsed schema, or \<open>None\<close> where \<open>JSON.parse\<close> throws (the source catches the error
  and skips the script), the number of brand mentions in the text, and whether the three
  structured-data selectors match.
\<close>

record entity_features =
  schemaScripts :: "string option list"
  brandMentions :: nat
  hasItemscope :: bool
  hasAddress :: bool
  hasAuthor :: bool

definition analyzeEntities :: "entity_features \<Rightarrow> real \<times> string list" where
  "analyzeEntities doc =
     (let (s, entities) =
            foldl (\<lambda>(s, entities) script.
                     (case script of
                        Some schema \<Rightarrow> (s + 0.1, entities @ [schema])
                      | None \<Rightarrow> (s, entities)))
              (0, []) (schemaScripts doc);
          s = s + min (real (brandMentions doc) * 0.05) 0.3;
          s = (if hasItemscope doc then s + 0.1 else s);
          s = (if hasAddress doc then s + 0.05 else s);
          s = (if hasAuthor doc then s + 0.1 else s)
      in (min s 1, entities))"

section \<open>AIContentBalancer\<close>

subsection \<open>Numbers with the special values\<close>

text \<open>
  The balancer divides by lengths that are zero for an empty document, so its numbers
  carry the special values of a double: not-a-number and the two infinities. Finite
  values stay exact reals. A zero denominator is the positive zero here, as every
  denominator in the balancer is a length or a sum of non-negative terms.
\<close>

datatype jsnum = NaN | PInf | NInf | Fin real

fun js_neg :: "jsnum \<Rightarrow> jsnum" where
  "js_neg NaN = NaN"
| "js_neg PInf = NInf"
| "js_neg NInf = PInf"
| "js_neg (Fin a) = Fin (- a)"

fun js_add :: "jsnum \<Rightarrow> jsnum \<Rightarrow> jsnum" where
  "js_add (Fin a) (Fin b) = Fin (a + b)"
| "js_add NaN _ = NaN"
| "js_add _ NaN = NaN"
| "js_add PInf NInf = NaN"
| "js_add NInf PInf = NaN"
| "js_add PInf _ = PInf"
| "js_add _ PInf = PInf"
| "js_add NInf _ = NInf"
| "js_add _ NInf = NInf"

definition js_sub :: "jsnum \<Rightarrow> jsnum \<Rightarrow> jsnum" where
  "js_sub x y = js_add x (js_neg y)"

fun js_sign :: "jsnum \<Rightarrow> int" where
  "js_sign NaN = 0"
| "js_sign PInf = 1"
| "js_sign NInf = - 1"
| "js_sign (Fin a) = (if a > 0 then 1 else if a < 0 then - 1 else 0)"

fun js_mul :: "jsnum \<Rightarrow> jsnum \<Rightarrow> jsnum" where
  "js_mul (Fin a) (Fin b) = Fin (a * b)"
| "js_mul NaN _ = NaN"
| "js_mul _ NaN = NaN"
| "js_mul x y =
     (let s = js_sign x * js_sign y
      in if s = 0 then NaN else if s > 0 then PInf else NInf)"

fun js_div :: "jsnum \<Rightarrow> jsnum \<Rightarrow> jsnum" where
  "js_div (Fin a) (Fin b) =
     (if b = 0 then (if a = 0 then NaN else if a > 0 then PInf else NInf)
      else Fin (a / b))"
| "js_div NaN _ = NaN"
| "js_div _ NaN = NaN"
| "js_div (Fin a) _ = Fin 0"
| "js_div PInf (Fin b) = (if b \<ge> 0 then PInf else NInf)"
| "js_div NInf (Fin b) = (if b \<ge> 0 then NInf else PInf)"
| "js_div _ _ = NaN"

text \<open>\<open>Math.min\<close>, \<open>Math.max\<close> and \<open>Math.abs\<close>: not-a-number is contagious.\<close>

fun js_min :: "jsnum \<Rightarrow> jsnum \<Rightarrow> jsnum" where
  "js_min (Fin a) (Fin b) = Fin (min a b)"
| "js_min NaN _ = NaN"
| "js_min _ NaN = NaN"
| "js_min NInf _ = NInf"
| "js_min _ NInf = NInf"
| "js_min PInf y = y"
| "js_min x PInf = x"

fun js_max :: "jsnum \<Rightarrow> jsnum \<Rightarrow> jsnum" where
  "js_max (Fin a) (Fin b) = Fin (max a b)"
| "js_max NaN _ = NaN"
| "js_max _ NaN = NaN"
| "js_max PInf _ = PInf"
| "js_max _ PInf = PInf"
| "js_max NInf y = y"
| "js_max x NInf = x"

fun js_abs :: "jsnum \<Rightarrow> jsnum" where
  "js_abs NaN = NaN"
| "js_abs PInf = PInf"
| "js_abs NInf = PInf"
| "js_abs (Fin a) = Fin \<bar>a\<bar>"

text \<open>The comparison \<open>x < y\<close>: false whenever an operand is not-a-number.\<close>

fun js_lt :: "jsnum \<Rightarrow> jsnum \<Rightarrow> bool" where
  "js_lt (Fin a) (Fin b) = (a < b)"
| "js_lt NaN _ = False"
| "js_lt _ NaN = False"
| "js_lt PInf _ = False"
| "js_lt _ NInf = False"
| "js_lt _ _ = True"

subsection \<open>The scores\<close>

definition AI_HUMAN_BALANCE_TARGET_OPTIMAL :: real where
  "AI_HUMAN_BALANCE_TARGET_OPTIMAL = 0.5"

text \<open>
  A paragraph is read through the word count of each of its sentences and through the
  sentiment that the sentiment analyser of the \<open>natural\<close> library returns for it.
\<close>

record text_paragraph =
  sentences :: "nat list"
  sentiment :: jsnum

text \<open>
  What the balancer reads from the parsed document: the paragraphs, the tokens of the
  lower-cased text as the tokenizer of the \<open>natural\<close> library returns them, and the
  total number of matches of each family of patterns.
\<close>

record balance_features =
  paragraphs :: "text_paragraph list"
  tokens :: "string list"
  aiPatternCount :: nat
  humanPatternCount :: nat
  transitionCount :: nat
  anecdoteCount :: nat
  conversationalCount :: nat

definition analyzeSentenceUniformity :: "text_paragraph list \<Rightarrow> jsnum" where
  "analyzeSentenceUniformity ps =
     (let sentenceLengths = concat (map sentences ps)
      in if length sentenceLengths < 5 then Fin 0
         else let n = real (length sentenceLengths);
                  mean = foldl (\<lambda>a b. a + real b) 0 sentenceLengths / n;
                  variance = foldl (\<lambda>acc len. acc + (real len - mean)\<^sup>2) 0 sentenceLengths / n;
                  stdDev = sqrt variance
              in js_max (Fin 0) (js_sub (Fin 1) (js_div (Fin stdDev) (Fin mean))))"

definition personalPronouns :: "string list" where
  "personalPronouns =
     [''i'', ''me'', ''my'', ''we'', ''us'', ''our'', ''i've'', ''we've'', ''i'll'', ''we'll'']"

definition calculatePersonalPronounRatio :: "string list \<Rightarrow> jsnum" where
  "calculatePersonalPronounRatio wrds =
     (let pronounCount = length (filter (\<lambda>w. w \<in> set personalPronouns) wrds)
      in js_div (Fin (real pronounCount)) (Fin (real (length wrds))))"

definition analyzeTransitions :: "nat \<Rightarrow> jsnum" where
  "analyzeTransitions cnt = Fin (min (real cnt * 0.05) 1)"

definition calculateVocabularyDiversity :: "string list \<Rightarrow> jsnum" where
  "calculateVocabularyDiversity wrds =
     js_div (Fin (real (length (remdups wrds)))) (Fin (real (length wrds)))"

definition analyzeSentimentNeutrality :: "text_paragraph list \<Rightarrow> jsnum" where
  "analyzeSentimentNeutrality ps =
     (let neutralCount = length (filter (\<lambda>p. js_lt (js_abs (sentiment p)) (Fin 0.2)) ps)
      in js_div (Fin (real neutralCount)) (Fin (real (length ps))))"

definition detectAnecdotes :: "nat \<Rightarrow> jsnum" where
  "detectAnecdotes cnt = Fin (min (real cnt * 0.2) 1)"

definition analyzeConversationalTone :: "nat \<Rightarrow> jsnum" where
  "analyzeConversationalTone cnt = Fin (min (real cnt * 0.02) 1)"

definition emotionalWords :: "string list" where
  "emotionalWords =
     [''love'', ''hate'', ''amazing'', ''terrible'', ''fantastic'', ''awful'',
      ''excited'', ''frustrated'', ''thrilled'', ''disappointed'', ''happy'', ''sad'']"

definition analyzeEmotionalLanguage :: "string list \<Rightarrow> jsnum" where
  "analyzeEmotionalLanguage wrds =
     (let emotionalCount = length (filter (\<lambda>w. w \<in> set emotionalWords) wrds)
      in js_min (js_mul (js_div (Fin (real emotionalCount)) (Fin (real (length wrds))))
                   (Fin 20))
           (Fin 1))"

definition calculateAIScore :: "balance_features \<Rightarrow> jsnum" where
  "calculateAIScore doc =
     (let s = Fin 0;
          s = js_add s (Fin (min (real (aiPatternCount doc) * 0.02) 0.3));
          s = js_add s (js_mul (analyzeSentenceUniformity (paragraphs doc)) (Fin 0.3));
          s = js_add s (js_mul (js_sub (Fin 1) (calculatePersonalPronounRatio (tokens doc)))
                          (Fin 0.2));
          s = js_add s (js_mul (analyzeTransitions (transitionCount doc)) (Fin 0.2));
          s = js_add s (js_mul (js_sub (Fin 1) (calculateVocabularyDiversity (tokens doc)))
                          (Fin 0.15));
          s = js_add s (js_mul (analyzeSentimentNeutrality (paragraphs doc)) (Fin 0.15));
          factors = 6
      in js_min (js_div s (Fin factors)) (Fin 1))"

definition calculateHumanScore :: "balance_features \<Rightarrow> jsnum" where
  "calculateHumanScore doc =
     (let s = Fin 0;
          s = js_add s (Fin (min (real (humanPatternCount doc) * 0.05) 0.3));
          s = js_add s (js_mul (detectAnecdotes (anecdoteCount doc)) (Fin 0.25));
          s = js_add s (js_mul (analyzeConversationalTone (conversationalCount doc)) (Fin 0.2));
          s = js_add s (js_mul (js_sub (Fin 1) (analyzeSentenceUniformity (paragraphs doc)))
                          (Fin 0.15));
          s = js_add s (js_mul (analyzeEmotionalLanguage (tokens doc)) (Fin 0.1));
          factors = 5
      in js_min (js_div s (Fin factors)) (Fin 1))"

definition calculateHybridScore :: "jsnum \<Rightarrow> jsnum \<Rightarrow> jsnum" where
  "calculateHybridScore aiScore humanScore =
     (let total = js_add aiScore humanScore
      in if total = Fin 0 then Fin 0
         else let ratio = js_div humanScore total;
                  distance = js_abs (js_sub ratio (Fin AI_HUMAN_BALANCE_TARGET_OPTIMAL))
              in js_max (Fin 0) (js_sub (Fin 1) (js_mul distance (Fin 2))))"

text \<open>
  Of \<open>AIContentBalance\<close> the three scores are kept; the flagged sections and the
  textual recommendations do not enter the ratio.
\<close>

record AIContentBalance =
  aiGeneratedScore :: jsnum
  humanWrittenScore :: jsnum
  hybridScore :: jsnum

definition analyzeBalance :: "balance_features \<Rightarrow> jsnum \<times> AIContentBalance" where
  "analyzeBalance doc =
     (let aiScore = calculateAIScore doc;
          humanScore = calculateHumanScore doc;
          hybrid = calculateHybridScore aiScore humanScore;
          balance = \<lparr> aiGeneratedScore = aiScore, humanWrittenScore = humanScore,
                      hybridScore = hybrid \<rparr>;
          ratio = js_div humanScore (js_add aiScore humanScore)
      in (ratio, balance))"

section \<open>AIOptimizer\<close>

datatype RecommendationType =
  add_schema | improve_structure | add_author_bio | update_content
  | add_citations | optimize_for_ai | balance_ai_content

datatype priority = low | medium | high

record Recommendation =
  rec_type :: RecommendationType
  rec_priority :: priority
  description :: string
  implementation :: string
  estimatedImpact :: real

text \<open>
  The four values that \<open>generateRecommendations\<close> reads from its argument:
  \<open>entityScore.score\<close>, \<open>structure.score\<close>, \<open>eeatSignals\<close> and \<open>freshness\<close>.
\<close>

record analysisData =
  ad_entityScore :: real
  ad_structureScore :: real
  ad_eeatSignals :: EEATAnalysis
  ad_freshness :: FreshnessScore

definition rule_add_schema :: Recommendation where
  "rule_add_schema =
     \<lparr> rec_type = add_schema, rec_priority = high,
       description = ''Add comprehensive schema markup to enhance entity recognition'',
       implementation = ''Use EntityOptimizer.generateSchema() to create appropriate schemas'',
       estimatedImpact = 0.25 \<rparr>"

definition rule_improve_structure :: Recommendation where
  "rule_improve_structure =
     \<lparr> rec_type = improve_structure, rec_priority = medium,
       description = ''Restructure content with FAQs, tables, and lists for better AI parsing'',
       implementation = ''Apply ContentStructurer.restructureContent() to improve formatting'',
       estimatedImpact = 0.2 \<rparr>"

definition rule_add_author_bio :: Recommendation where
  "rule_add_author_bio =
     \<lparr> rec_type = add_author_bio, rec_priority = high,
       description = ''Add detailed author bios with credentials and expertise signals'',
       implementation = ''Use EEATSignalBuilder.createAuthorBio() with proper schema'',
       estimatedImpact = 0.3 \<rparr>"

definition rule_update_content :: Recommendation where
  "rule_update_content =
     \<lparr> rec_type = update_content, rec_priority = high,
       description = ''Content is stale compared to competitors, requires immediate update'',
       implementation = ''Use FreshnessMonitor.suggestUpdates() for specific update recommendations'',
       estimatedImpact = 0.35 \<rparr>"

definition generateRecommendations :: "analysisData \<Rightarrow> Recommendation list" where
  "generateRecommendations d =
     (let recs = [];
          recs = (if ad_entityScore d < 0.6 then recs @ [rule_add_schema] else recs);
          recs = (if ad_structureScore d < 0.7 then recs @ [rule_improve_structure] else recs);
          recs = (if authoritativeness (ad_eeatSignals d) < 0.5
                  then recs @ [rule_add_author_bio] else recs);
          recs = (if updateUrgency (ad_freshness d) = High
                     \<or> updateUrgency (ad_freshness d) = Critical
                  then recs @ [rule_update_content] else recs)
      in recs)"

text \<open>A document is what the six analysers read from the parsed markup.\<close>

record document =
  entity_part :: entity_features
  structure_part :: structure_features
  eeat_part :: eeat_features
  freshness_part :: freshness_features
  balance_part :: balance_features
  citation_part :: citation_features

record ContentAnalysis =
  entityScore :: real
  aiCitationPotential :: real
  structureScore :: real
  eeatSignals :: EEATAnalysis
  freshness :: FreshnessScore
  aiHumanBalance :: jsnum
  recommendations :: "Recommendation list"

definition analyzeContent :: "env \<Rightarrow> document \<Rightarrow> ContentAnalysis" where
  "analyzeContent e doc =
     (let entityRes = analyzeEntities (entity_part doc);
          structureRes = analyzeStructure (structure_part doc);
          eeatRes = analyzeEEATSignals (eeat_part doc);
          freshnessRes = checkFreshness e (freshness_part doc);
          balanceRes = analyzeBalance (balance_part doc);
          citationRes = analyzeCitationPotential (citation_part doc);
          recs = generateRecommendations
                   \<lparr> ad_entityScore = fst entityRes, ad_structureScore = fst structureRes,
                     ad_eeatSignals = eeatRes, ad_freshness = freshnessRes \<rparr>
      in \<lparr> entityScore = fst entityRes,
           aiCitationPotential = fst citationRes,
           structureScore = fst structureRes,
           eeatSignals = eeatRes,
           freshness = freshnessRes,
           aiHumanBalance = fst balanceRes,
           recommendations = recs \<rparr>)"

text \<open>The document that the parser returns for the empty markup.\<close>

definition empty_document :: document where
  "empty_document =
     \<lparr> entity_part = \<lparr> schemaScripts = [], brandMentions = 0, hasItemscope = False,
                       hasAddress = False, hasAuthor = False \<rparr>,
       structure_part = \<lparr> text_content = [], headingElements = 0, h2h3Elements = 0,
                          faqsFound = 0, tableElements = 0, listElements = 0 \<rparr>,
       eeat_part = \<lparr> authorElements = [], credentialMatches = 0, expertiseIndicators = 0,
                     experienceMatches = 0, caseStudies = 0, testimonials = 0,
                     citationElements = 0, externalLinks = [], dataMatches = 0,
                     contactElements = 0, legalLinks = 0, securityMentioned = False,
                     dateElements = 0 \<rparr>,
       freshness_part = \<lparr> updateElements = [], dateMatches = [] \<rparr>,
       balance_part = \<lparr> paragraphs = [], tokens = [], aiPatternCount = 0,
                        humanPatternCount = 0, transitionCount = 0, anecdoteCount = 0,
                        conversationalCount = 0 \<rparr>,
       citation_part = \<lparr> foundInsights = [], foundDataPoints = [], researchIndicator = False,
                         foundQuotes = [] \<rparr> \<rparr>"

section \<open>ReportGenerator\<close>

subsection \<open>Rounding to the nearest double\<close>

text \<open>
  \<open>binary64 x\<close> is the double nearest to \<open>x\<close>, ties to the even significand: 53
  significant bits, spacing \<open>2 ^ - 1074\<close> below the normal range. Overflow to
  infinity is not modelled; the scores stay far below \<open>2 ^ 1024\<close>.
\<close>

fun bitlen :: "nat \<Rightarrow> nat" where
  "bitlen n = (if n = 0 then 0 else Suc (bitlen (n div 2)))"

declare bitlen.simps [simp del]

text \<open>For \<open>a > 0\<close>, \<open>ilog2 a\<close> is the exponent \<open>e\<close> with \<open>2 ^ e \<le> a < 2 ^ (e + 1)\<close>.\<close>

definition ilog2 :: "real \<Rightarrow> int" where
  "ilog2 a = (if a \<ge> 1 then int (bitlen (nat \<lfloor>a\<rfloor>)) - 1
              else - int (bitlen (nat (\<lceil>1 / a\<rceil> - 1))))"

definition pow2 :: "int \<Rightarrow> real" where
  "pow2 q = (if q \<ge> 0 then 2 ^ nat q else 1 / 2 ^ nat (- q))"

definition round_half_even :: "real \<Rightarrow> int" where
  "round_half_even y =
     (let f = \<lfloor>y\<rfloor>; r = y - of_int f
      in if r < 1 / 2 then f else if r > 1 / 2 then f + 1
         else if even f then f else f + 1)"

definition binary64 :: "real \<Rightarrow> real" where
  "binary64 x =
     (if x = 0 then 0
      else let q = max (- 1074) (ilog2 \<bar>x\<bar> - 52)
           in of_int (round_half_even (x / pow2 q)) * pow2 q)"

text \<open>The arithmetic without rounding.\<close>

definition exact :: "real \<Rightarrow> real" where
  "exact x = x"

subsection \<open>The overall score\<close>

text \<open>
  The two functions take the rounding of the arithmetic as their first argument:
  \<open>binary64\<close> for the numbers of the program, \<open>exact\<close> for the real numbers. A
  decimal literal is the rounded decimal, and each operation rounds its exact result.
  Of \<open>KPIMetrics\<close> the trend arrays are left out.
\<close>

record KPIMetrics =
  citationShare :: real
  kpi_brandMentions :: real
  entityRecognition :: real
  aiVisibilityIndex :: real

datatype dimension = Entity | Citation | Structure | Eeat | Visibility

definition calculateEEATAverage :: "(real \<Rightarrow> real) \<Rightarrow> EEATAnalysis \<Rightarrow> real" where
  "calculateEEATAverage rnd e =
     (let s = rnd (expertise e + experience e);
          s = rnd (s + authoritativeness e);
          s = rnd (s + trustworthiness e)
      in rnd (rnd (s / 4) * 100))"

definition calculateOverallScore ::
    "(real \<Rightarrow> real) \<Rightarrow> ContentAnalysis \<Rightarrow> KPIMetrics \<Rightarrow> real" where
  "calculateOverallScore rnd analysis kpis =
     (let weights = [(Entity, rnd 0.2), (Citation, rnd 0.25), (Structure, rnd 0.15),
                     (Eeat, rnd 0.2), (Visibility, rnd 0.2)];
          scores = (\<lambda>key. case key of
                      Entity \<Rightarrow> entityScore analysis
                    | Citation \<Rightarrow> aiCitationPotential analysis
                    | Structure \<Rightarrow> structureScore analysis
                    | Eeat \<Rightarrow> rnd (calculateEEATAverage rnd (eeatSignals analysis) / 100)
                    | Visibility \<Rightarrow> aiVisibilityIndex kpis)
      in foldl (\<lambda>overall (key, weight). rnd (overall + rnd (scores key * weight)))
           0 weights)"

definition EEAT_WEIGHTS_EXPERTISE :: real where
  "EEAT_WEIGHTS_EXPERTISE = 0.3"

definition EEAT_WEIGHTS_EXPERIENCE :: real where
  "EEAT_WEIGHTS_EXPERIENCE = 0.25"

definition EEAT_WEIGHTS_AUTHORITATIVENESS :: real where
  "EEAT_WEIGHTS_AUTHORITATIVENESS = 0.25"

definition EEAT_WEIGHTS_TRUSTWORTHINESS :: real where
  "EEAT_WEIGHTS_TRUSTWORTHINESS = 0.2"

section \<open>Notions of the specification and example inputs\<close>

text \<open>
  A document has no detectable update date when neither the first update element nor
  the first date match in the text parses to a date.
\<close>

definition no_detectable_date :: "freshness_features \<Rightarrow> bool" where
  "no_detectable_date doc =
     (case updateElements doc of
        Some parsed # _ \<Rightarrow> False
      | _ \<Rightarrow> (case dateMatches doc of Some parsed # _ \<Rightarrow> False | _ \<Rightarrow> True))"

text \<open>
  The order that the specification asks of a recommendation list: no recommendation
  stands before one of higher priority.
\<close>

definition priority_rank :: "priority \<Rightarrow> nat" where
  "priority_rank p = (case p of low \<Rightarrow> 0 | medium \<Rightarrow> 1 | high \<Rightarrow> 2)"

definition ordered_by_priority :: "Recommendation list \<Rightarrow> bool" where
  "ordered_by_priority recs =
     sorted_wrt (\<lambda>a b. priority_rank (rec_priority b) \<le> priority_rank (rec_priority a)) recs"

text \<open>The E-E-A-T aggregate that the table \<open>EEAT_WEIGHTS\<close> would give.\<close>

definition eeat_weighted :: "EEATAnalysis \<Rightarrow> real" where
  "eeat_weighted e =
     expertise e * EEAT_WEIGHTS_EXPERTISE + experience e * EEAT_WEIGHTS_EXPERIENCE
     + authoritativeness e * EEAT_WEIGHTS_AUTHORITATIVENESS
     + trustworthiness e * EEAT_WEIGHTS_TRUSTWORTHINESS"

text \<open>The sum inside \<open>calculateCitationWorthiness\<close>, as a function of the counts.\<close>

definition citation_sum :: "nat \<Rightarrow> nat \<Rightarrow> nat \<Rightarrow> bool \<Rightarrow> nat \<Rightarrow> real" where
  "citation_sum i v q r t =
     min (real i * 0.05) 0.25 * 0.25 + min (real v * 0.05) 0.25 * 0.25
     + min (real q * 0.04) 0.2 * 0.2 + (if r then 0.2 else 0) + (if t > 10 then 0.15 else 0)"

text \<open>
  Two runs that read the clock at the same instants (5 ms between the two readings)
  and draw different random numbers, and a third run that draws another number with
  the same simulated competitor average as the first.
\<close>

definition run_a :: env where
  "run_a = \<lparr> clock_extract = 1700000000000, clock_days = 1700000000005, math_random = 0 \<rparr>"



text \<open>Documents with no date, and with an explicit date 20 and 200 days before the runs.\<close>

definition undated :: freshness_features where
  "undated = \<lparr> updateElements = [], dateMatches = [] \<rparr>"

definition dated_200 :: freshness_features where
  "dated_200 = \<lparr> updateElements = [Some (1700000000000 - 200 * 86400000)],
                 dateMatches = [] \<rparr>"




text \<open>
  An analysis with a good entity score, a weak structure score, weak authoritativeness
  and fresh content.
\<close>

definition weak_structure_and_authority :: analysisData where
  "weak_structure_and_authority =
     \<lparr> ad_entityScore = 0.9, ad_structureScore = 0.3,
       ad_eeatSignals = \<lparr> expertise = 0.8, experience = 0.8, authoritativeness = 0.2,
                          trustworthiness = 0.8, signals = [] \<rparr>,
       ad_freshness = \<lparr> score = 1, lastUpdated = 0, competitorAverage = 15,
                        updateUrgency = Low \<rparr> \<rparr>"

text \<open>An analysis and KPIs in which every dimension score is \<open>s\<close>.\<close>

definition uniform_eeat :: "real \<Rightarrow> EEATAnalysis" where
  "uniform_eeat s = \<lparr> expertise = s, experience = s, authoritativeness = s,
                      trustworthiness = s, signals = [] \<rparr>"

definition uniform_analysis :: "real \<Rightarrow> ContentAnalysis" where
  "uniform_analysis s =
     \<lparr> entityScore = s, aiCitationPotential = s, structureScore = s,
       eeatSignals = uniform_eeat s,
       freshness = \<lparr> score = s, lastUpdated = 0, competitorAverage = 15,
                     updateUrgency = Low \<rparr>,
       aiHumanBalance = Fin s, recommendations = [] \<rparr>"

definition uniform_kpis :: "real \<Rightarrow> KPIMetrics" where
  "uniform_kpis s = \<lparr> citationShare = s, kpi_brandMentions = 0, entityRecognition = s,
                      aiVisibilityIndex = s \<rparr>"

definition expertise_only :: EEATAnalysis where
  "expertise_only = \<lparr> expertise = 1, experience = 0, authoritativeness = 0,
                       trustworthiness = 0, signals = [] \<rparr>"

section \<open>Auxiliary facts\<close>

subsection \<open>Conditional updates of an accumulator\<close>

lemma if_minus: "(if b then s - x else s) = s - (if b then x else (0::real))"
  by simp

lemma if_plus: "(if b then s + x else s) = s + (if b then x else (0::real))"
  by simp

lemma if_snoc: "(if b then xs @ [x] else xs) = xs @ (if b then [x] else [])"
  by simp

subsection \<open>Not-a-number is contagious\<close>

lemma js_add_NaN_right [simp]: "js_add x NaN = NaN"
  by (cases x) simp_all

lemma js_mul_NaN_right [simp]: "js_mul x NaN = NaN"
  by (cases x) simp_all

lemma js_div_NaN_right [simp]: "js_div x NaN = NaN"
  by (cases x) simp_all

lemma js_min_NaN_right [simp]: "js_min x NaN = NaN"
  by (cases x) simp_all

lemma neutrality_no_paragraphs: "analyzeSentimentNeutrality [] = NaN"
  by (simp add: analyzeSentimentNeutrality_def)

lemma ai_score_no_paragraphs: "paragraphs doc = [] \<Longrightarrow> calculateAIScore doc = NaN"
  by (simp add: calculateAIScore_def Let_def neutrality_no_paragraphs)

lemma ratio_no_paragraphs: "paragraphs doc = [] \<Longrightarrow> fst (analyzeBalance doc) = NaN"
  by (simp add: analyzeBalance_def Let_def ai_score_no_paragraphs)

lemma ratio_zero_scores: "js_div (Fin 0) (js_add (Fin 0) (Fin 0)) = NaN"
  by simp

lemma balance_ratio_unit:
  assumes "calculateAIScore doc = Fin a" "calculateHumanScore doc = Fin h"
    and "0 \<le> a" "0 \<le> h" "0 < a + h"
  shows "fst (analyzeBalance doc) = Fin (h / (a + h)) \<and> 0 \<le> h / (a + h) \<and> h / (a + h) \<le> 1"
  using assms by (simp add: analyzeBalance_def Let_def)

subsection \<open>The signal score is the capped mean\<close>

lemma foldl_strength:
  "foldl (\<lambda>sum signal. sum + strength signal) a sigs = a + sum_list (map strength sigs)"
  by (induction sigs arbitrary: a) auto

lemma calculateSignalScore_eq:
  "calculateSignalScore sigs =
     (if sigs = [] then 0 else min (sum_list (map strength sigs) / real (length sigs)) 1)"
  by (simp add: calculateSignalScore_def foldl_strength Let_def)


subsection \<open>Citation worthiness grows with the counts\<close>

lemma calculateCitationWorthiness_eq:
  "calculateCitationWorthiness d =
     min (citation_sum (length (uniqueInsights d)) (length (filter verifiable (dataPoints d)))
            (length (expertQuotes d)) (originalResearch d)
            (length (uniqueInsights d) + length (dataPoints d) + length (expertQuotes d))) 1"
  by (simp only: calculateCitationWorthiness_def citation_sum_def Let_def if_plus
      CITATION_WORTHINESS_UNIQUE_DATA_def CITATION_WORTHINESS_EXPERT_QUOTES_def
      CITATION_WORTHINESS_ORIGINAL_RESEARCH_def CITATION_WORTHINESS_COMPREHENSIVE_COVERAGE_def
      add_0)

lemma citation_sum_nonneg: "0 \<le> citation_sum i v q r t"
  unfolding citation_sum_def by (intro add_nonneg_nonneg mult_nonneg_nonneg) simp_all





subsection \<open>Every score but the balance ratio lies between 0 and 1\<close>

lemma calculateFreshnessScore_eq:
  "calculateFreshnessScore d c =
     max 0 (min 1 (1 - (if d > 7 then 0.1 else 0) - (if d > 30 then 0.2 else 0)
                     - (if d > 60 then 0.2 else 0) - (if d > 90 then 0.2 else 0)
                     - (if d > 180 then 0.3 else 0) + (if d < c then 0.2 else 0)))"
  by (simp only: calculateFreshnessScore_def Let_def if_minus if_plus)

lemma calculateFreshnessScore_unit:
  "0 \<le> calculateFreshnessScore d c \<and> calculateFreshnessScore d c \<le> 1"
  unfolding calculateFreshnessScore_eq by (simp split del: if_split)

lemma calculateSignalScore_unit:
  assumes "\<forall>s \<in> set sigs. 0 \<le> strength s"
  shows "0 \<le> calculateSignalScore sigs \<and> calculateSignalScore sigs \<le> 1"
proof -
  have "0 \<le> sum_list (map strength sigs)"
    using assms by (intro sum_list_nonneg) auto
  then show ?thesis
    by (simp add: calculateSignalScore_eq)
qed

lemma analyzeExpertise_nonneg: "\<forall>s \<in> set (analyzeExpertise doc). 0 \<le> strength s"
  by (auto simp: analyzeExpertise_def)

lemma analyzeExperience_nonneg: "\<forall>s \<in> set (analyzeExperience doc). 0 \<le> strength s"
  by (auto simp: analyzeExperience_def)

lemma analyzeAuthoritativeness_nonneg:
  "\<forall>s \<in> set (analyzeAuthoritativeness doc). 0 \<le> strength s"
  by (auto simp: analyzeAuthoritativeness_def Let_def)

lemma analyzeTrustworthiness_nonneg:
  "\<forall>s \<in> set (analyzeTrustworthiness doc). 0 \<le> strength s"
  by (auto simp: analyzeTrustworthiness_def)

lemma calculateCitationWorthiness_unit:
  "0 \<le> calculateCitationWorthiness d \<and> calculateCitationWorthiness d \<le> 1"
  by (simp add: calculateCitationWorthiness_eq citation_sum_nonneg)

lemma calculateReadabilityScore_unit:
  "0 \<le> calculateReadabilityScore doc \<and> calculateReadabilityScore doc \<le> 1"
  by (simp only: calculateReadabilityScore_def Let_def if_minus if_plus)
     (simp split del: if_split)

lemma calculateStructureScore_eq:
  "calculateStructureScore st =
     min 1 (readabilityScore st * 0.3 + (if headings st > 3 then 0.2 else 0)
            + (if faqs st > 2 then 0.2 else 0) + (if tables st > 0 then 0.15 else 0)
            + (if lists st > 1 then 0.15 else 0))"
  by (simp only: calculateStructureScore_def Let_def if_plus)

lemma calculateStructureScore_unit:
  assumes "0 \<le> readabilityScore st"
  shows "0 \<le> calculateStructureScore st \<and> calculateStructureScore st \<le> 1"
proof -
  have "0 \<le> readabilityScore st * 0.3 + (if headings st > 3 then 0.2 else 0)
            + (if faqs st > 2 then 0.2 else 0) + (if tables st > 0 then 0.15 else 0)
            + (if lists st > 1 then 0.15 else (0::real))"
    using assms by (intro add_nonneg_nonneg) simp_all
  then show ?thesis
    unfolding calculateStructureScore_eq by (simp split del: if_split)
qed



lemma entity_fold_nonneg:
  "0 \<le> a \<Longrightarrow>
   0 \<le> fst (foldl (\<lambda>(s, entities) script.
                  (case script of Some schema \<Rightarrow> (s + 0.1, entities @ [schema])
                   | None \<Rightarrow> (s, entities))) (a :: real, es) scripts)"
  by (induction scripts arbitrary: a es) (auto split: option.splits)

lemma analyzeEntities_unit:
  "0 \<le> fst (analyzeEntities doc) \<and> fst (analyzeEntities doc) \<le> 1"
proof -
  obtain s es where f: "foldl (\<lambda>(s, entities) script.
                  (case script of Some schema \<Rightarrow> (s + 0.1, entities @ [schema])
                   | None \<Rightarrow> (s, entities))) (0 :: real, []) (schemaScripts doc) = (s, es)"
    by (cases "foldl (\<lambda>(s, entities) script.
                  (case script of Some schema \<Rightarrow> (s + 0.1, entities @ [schema])
                   | None \<Rightarrow> (s, entities))) (0 :: real, []) (schemaScripts doc)")
  have "0 \<le> s" using entity_fold_nonneg [of 0 "[]" "schemaScripts doc"] f by simp
  then show ?thesis
    by (simp add: analyzeEntities_def f Let_def add_nonneg_nonneg)
qed

lemma scores_in_unit_interval:
  "entityScore (analyzeContent e doc) \<in> {0..1}
   \<and> aiCitationPotential (analyzeContent e doc) \<in> {0..1}
   \<and> structureScore (analyzeContent e doc) \<in> {0..1}
   \<and> expertise (eeatSignals (analyzeContent e doc)) \<in> {0..1}
   \<and> experience (eeatSignals (analyzeContent e doc)) \<in> {0..1}
   \<and> authoritativeness (eeatSignals (analyzeContent e doc)) \<in> {0..1}
   \<and> trustworthiness (eeatSignals (analyzeContent e doc)) \<in> {0..1}
   \<and> score (freshness (analyzeContent e doc)) \<in> {0..1}"
  using analyzeEntities_unit [of "entity_part doc"]
    calculateCitationWorthiness_unit
    calculateStructureScore_unit calculateReadabilityScore_unit
    calculateSignalScore_unit [OF analyzeExpertise_nonneg]
    calculateSignalScore_unit [OF analyzeExperience_nonneg]
    calculateSignalScore_unit [OF analyzeAuthoritativeness_nonneg]
    calculateSignalScore_unit [OF analyzeTrustworthiness_nonneg]
    calculateFreshnessScore_unit
  by (simp add: analyzeContent_def Let_def analyzeCitationPotential_def analyzeStructure_def
      analyzeEEATSignals_def checkFreshness_def)

subsection \<open>Freshness of a document that counts as updated now\<close>

lemma calculateFreshnessScore_recent: "d \<le> 7 \<Longrightarrow> calculateFreshnessScore d c = 1"
  unfolding calculateFreshnessScore_eq by simp

lemma score_checkFreshness:
  "score (checkFreshness e doc) =
     calculateFreshnessScore
       (calculateDaysSince (clock_days e) (extractLastUpdated (clock_extract e) doc))
       (getCompetitorFreshness (math_random e))"
  by (simp add: checkFreshness_def Let_def)


subsection \<open>The example runs\<close>

lemma competitor_run_a: "getCompetitorFreshness (math_random run_a) = 15"
  by (simp add: run_a_def getCompetitorFreshness_def)


lemma days_run_a_undated:
  "calculateDaysSince (clock_days run_a) (extractLastUpdated (clock_extract run_a) undated) = 1"
  by (simp add: run_a_def undated_def extractLastUpdated_def calculateDaysSince_def
      ceiling_eq_iff)

lemma days_run_a_dated_200:
  "calculateDaysSince (clock_days run_a) (extractLastUpdated (clock_extract run_a) dated_200)
     = 201"
  by (simp add: run_a_def dated_200_def extractLastUpdated_def calculateDaysSince_def)



lemma freshness_score_values:
  "calculateFreshnessScore 1 15 = 1"
  "calculateFreshnessScore 201 15 = 0"
  "calculateFreshnessScore 21 15 = 9 / 10"
  "calculateFreshnessScore 21 45 = 1"
  by (simp_all add: calculateFreshnessScore_eq)

lemma days_le_7:
  assumes "\<bar>a - b\<bar> \<le> 604800000"
  shows "calculateDaysSince a b \<le> 7"
proof -
  have "real_of_int \<bar>a - b\<bar> / (1000 * 60 * 60 * 24) \<le> 7"
    using assms by simp
  then have "\<lceil>real_of_int \<bar>a - b\<bar> / (1000 * 60 * 60 * 24)\<rceil> \<le> 7"
    by (simp add: ceiling_le_iff)
  then show ?thesis
    by (simp add: calculateDaysSince_def Let_def)
qed

lemma extract_default: "no_detectable_date doc \<Longrightarrow> extractLastUpdated now doc = now"
  by (auto simp: no_detectable_date_def extractLastUpdated_def
      split: list.splits option.splits)

subsection \<open>The empty document\<close>






subsection \<open>The recommendation rules\<close>

lemma generateRecommendations_eq:
  "generateRecommendations d =
     (if ad_entityScore d < 0.6 then [rule_add_schema] else [])
     @ (if ad_structureScore d < 0.7 then [rule_improve_structure] else [])
     @ (if authoritativeness (ad_eeatSignals d) < 0.5 then [rule_add_author_bio] else [])
     @ (if updateUrgency (ad_freshness d) = High \<or> updateUrgency (ad_freshness d) = Critical
        then [rule_update_content] else [])"
  by (simp only: generateRecommendations_def Let_def if_snoc append_Nil append_assoc)

lemma subseq_of_four:
  "subseq ((if a then [x] else []) @ (if b then [y] else []) @ (if c then [z] else [])
           @ (if d then [w] else [])) [x, y, z, w]"
  by auto

lemma rule_types:
  "rec_type rule_add_schema = add_schema"
  "rec_type rule_improve_structure = improve_structure"
  "rec_type rule_add_author_bio = add_author_bio"
  "rec_type rule_update_content = update_content"
  by (simp_all add: rule_add_schema_def rule_improve_structure_def rule_add_author_bio_def
      rule_update_content_def)

lemma rule_priorities:
  "rec_priority rule_add_schema = high"
  "rec_priority rule_improve_structure = medium"
  "rec_priority rule_add_author_bio = high"
  "rec_priority rule_update_content = high"
  by (simp_all add: rule_add_schema_def rule_improve_structure_def rule_add_author_bio_def
      rule_update_content_def)

subsection \<open>The overall score, exactly and in doubles\<close>

lemma binary64_08: "binary64 (8 / 10) = 3602879701896397 / 4503599627370496"
  by (simp add: binary64_def ilog2_def pow2_def round_half_even_def bitlen.simps Let_def)

lemma overall_exact:
  "calculateOverallScore exact a k =
     entityScore a * 0.2 + aiCitationPotential a * 0.25 + structureScore a * 0.15
     + (expertise (eeatSignals a) + experience (eeatSignals a)
        + authoritativeness (eeatSignals a) + trustworthiness (eeatSignals a)) / 4 * 0.2
     + aiVisibilityIndex k * 0.2"
  by (simp add: calculateOverallScore_def calculateEEATAverage_def exact_def Let_def)

lemma overall_exact_08:
  "calculateOverallScore exact (uniform_analysis (8 / 10)) (uniform_kpis (8 / 10)) = 8 / 10"
  by (simp add: overall_exact uniform_analysis_def uniform_kpis_def uniform_eeat_def)

lemma eeat_average_binary64_08:
  "calculateEEATAverage binary64 (uniform_eeat (3602879701896397 / 4503599627370496)) = 80"
  by (simp add: calculateEEATAverage_def uniform_eeat_def
      binary64_def ilog2_def pow2_def round_half_even_def bitlen.simps Let_def)

lemma overall_binary64_08:
  "calculateOverallScore binary64 (uniform_analysis (binary64 (8 / 10)))
       (uniform_kpis (binary64 (8 / 10)))
     = 7205759403792795 / 9007199254740992"
  unfolding binary64_08
  by (simp add: calculateOverallScore_def uniform_analysis_def uniform_kpis_def
        eeat_average_binary64_08)
     (simp add: binary64_def ilog2_def pow2_def round_half_even_def bitlen.simps Let_def)

section \<open>The claims\<close>

text \<open>
  C1. Every per-dimension score is a number between 0 and 1, also for the empty
  document. The balance ratio breaks this: \<open>analyzeBalance\<close> divides the human score
  by the sum of the two scores without the guard that \<open>calculateHybridScore\<close> has, and
  for the empty document (no paragraphs, no tokens) the ratio is not-a-number, whatever
  the clock and the random draw. (\<open>scores_in_unit_interval\<close> above shows the bound for
  the other scores.)
\<close>

theorem empty_document_balance_ratio_is_NaN:
  "aiHumanBalance (analyzeContent e empty_document) = NaN"
  by (simp add: analyzeContent_def Let_def ratio_no_paragraphs empty_document_def)







text \<open>
  C4, as stated: the overall score is the dot product of the five dimension scores with
  the fixed weights, and it is exactly 0.8 when every score is 0.8. In the doubles of
  the program the second part fails: the sum of the five rounded products is one unit in
  the last place above the double 0.8.
\<close>

theorem overall_score_all_08_not_exact:
  "calculateOverallScore binary64 (uniform_analysis (binary64 (8 / 10)))
       (uniform_kpis (binary64 (8 / 10)))
     \<noteq> binary64 (8 / 10)"
  by (subst overall_binary64_08, subst binary64_08) simp

text \<open>
  C4, amended. In exact arithmetic the overall score is the dot product of the five
  dimension scores with the weights 0.2, 0.25, 0.15, 0.2 and 0.2, and it is 0.8 when
  every score is 0.8; in doubles the overall score of five scores 0.8 is the double 0.8
  plus \<open>2 ^ - 53\<close>, equal to 0.8 within the tolerance of the arithmetic only.
\<close>

theorem overall_score_dot_product:
  "calculateOverallScore exact a k =
     0.2 * entityScore a + 0.25 * aiCitationPotential a + 0.15 * structureScore a
     + 0.2 * (calculateEEATAverage exact (eeatSignals a) / 100) + 0.2 * aiVisibilityIndex k
   \<and> calculateOverallScore exact (uniform_analysis (8 / 10)) (uniform_kpis (8 / 10)) = 8 / 10
   \<and> calculateOverallScore binary64 (uniform_analysis (binary64 (8 / 10)))
         (uniform_kpis (binary64 (8 / 10)))
       = binary64 (8 / 10) + 1 / 2 ^ 53"
proof (intro conjI)
  show "calculateOverallScore exact a k =
     0.2 * entityScore a + 0.25 * aiCitationPotential a + 0.15 * structureScore a
     + 0.2 * (calculateEEATAverage exact (eeatSignals a) / 100) + 0.2 * aiVisibilityIndex k"
    by (simp add: overall_exact calculateEEATAverage_def exact_def Let_def field_simps)
  show "calculateOverallScore exact (uniform_analysis (8 / 10)) (uniform_kpis (8 / 10)) = 8 / 10"
    by (rule overall_exact_08)
  show "calculateOverallScore binary64 (uniform_analysis (binary64 (8 / 10)))
         (uniform_kpis (binary64 (8 / 10)))
       = binary64 (8 / 10) + 1 / 2 ^ 53"
    by (subst overall_binary64_08, subst binary64_08) simp
qed

text \<open>
  C5, as stated: the recommendations are ordered by descending priority. It fails: the
  rules append in their declaration order and nothing sorts the list, so the
  medium-priority structure recommendation stands before the high-priority author
  recommendation.
\<close>

theorem recommendations_not_priority_ordered:
  "generateRecommendations weak_structure_and_authority
     = [rule_improve_structure, rule_add_author_bio]
   \<and> \<not> ordered_by_priority (generateRecommendations weak_structure_and_authority)"
proof -
  have g: "generateRecommendations weak_structure_and_authority
             = [rule_improve_structure, rule_add_author_bio]"
    by (simp add: generateRecommendations_eq weak_structure_and_authority_def)
  show ?thesis
    unfolding g by (simp add: ordered_by_priority_def priority_rank_def rule_priorities)
qed

text \<open>
  C5, amended. The recommendation list holds the recommendation of each threshold rule
  at most once, and it is in the declaration order of the rules: it is a subsequence of
  the four rules as declared.
\<close>

theorem recommendations_in_declaration_order:
  "subseq (generateRecommendations d)
     [rule_add_schema, rule_improve_structure, rule_add_author_bio, rule_update_content]
   \<and> distinct (map rec_type (generateRecommendations d))"
  unfolding generateRecommendations_eq
  by (simp add: subseq_of_four rule_types)




text \<open>
  C7. A document that was last updated 40 days ago, against a competitor average of
  15 days, gets the update urgency \<open>critical\<close>: 40 exceeds twice the baseline.
\<close>

theorem urgency_40_days_vs_15_critical:
  "determineUpdateUrgency 40 15 = Critical"
  by (simp add: determineUpdateUrgency_def)

text \<open>
  C8, as stated: a document without a detectable update date scores no higher than the
  same document with the date. It fails: the missing date defaults to the time of the
  analysis, so the undated document gets the freshness score 1 where the same document
  dated 200 days back gets 0.
\<close>

theorem undated_scores_above_dated:
  "score (checkFreshness run_a dated_200) < score (checkFreshness run_a undated)"
  by (simp add: score_checkFreshness days_run_a_dated_200 days_run_a_undated
      competitor_run_a freshness_score_values)

text \<open>
  C8, amended. A document without a detectable update date raises no error and counts as
  updated at the time of the analysis; when the two readings of the clock are at most
  seven days apart its freshness score is 1, not lower than the score of any other
  document in the same run, and so equal to that of a document with a recent explicit
  date that scores 1.
\<close>

theorem undated_document_top_freshness:
  assumes "no_detectable_date doc" and "\<bar>clock_days e - clock_extract e\<bar> \<le> 604800000"
  shows "lastUpdated (checkFreshness e doc) = clock_extract e
       \<and> score (checkFreshness e doc) = 1
       \<and> score (checkFreshness e other) \<le> score (checkFreshness e doc)"
proof -
  have d: "extractLastUpdated (clock_extract e) doc = clock_extract e"
    using assms(1) by (rule extract_default)
  have "calculateDaysSince (clock_days e) (clock_extract e) \<le> 7"
    using assms(2) by (rule days_le_7)
  then have s: "score (checkFreshness e doc) = 1"
    by (simp add: checkFreshness_def Let_def d calculateFreshnessScore_recent)
  have "score (checkFreshness e other) \<le> 1"
    using calculateFreshnessScore_unit by (simp add: checkFreshness_def Let_def)
  with s d show ?thesis by (simp add: checkFreshness_def Let_def)
qed

theorem undated_document_top_freshness_witness:
  "no_detectable_date undated \<and> \<bar>clock_days run_a - clock_extract run_a\<bar> \<le> 604800000
   \<and> score (checkFreshness run_a undated) = 1
   \<and> score (checkFreshness run_a dated_200) \<le> score (checkFreshness run_a undated)"
proof -
  have a: "no_detectable_date undated"
    by (simp add: no_detectable_date_def undated_def)
  have b: "\<bar>clock_days run_a - clock_extract run_a\<bar> \<le> 604800000"
    by (simp add: run_a_def)
  show ?thesis using undated_document_top_freshness [OF a b, of dated_200] a b by simp
qed

text \<open>
  C9. For a whole, non-negative number of days and any competitor average,
  \<open>determineUpdateUrgency\<close> answers \<open>critical\<close> exactly when the days exceed twice
  the average or exceed 7, and \<open>low\<close> otherwise; it never answers \<open>high\<close> or
  \<open>medium\<close>, since whatever exceeds 30 or 90 already exceeds 7.
\<close>

theorem urgency_only_critical_or_low:
  "determineUpdateUrgency (real n) c =
     (if real n > 2 * c \<or> real n > 7 then Critical else Low)
   \<and> determineUpdateUrgency (real n) c \<noteq> High
   \<and> determineUpdateUrgency (real n) c \<noteq> Medium"
  by (simp add: determineUpdateUrgency_def FRESHNESS_THRESHOLDS_CRITICAL_def
      FRESHNESS_THRESHOLDS_HIGH_def FRESHNESS_THRESHOLDS_MEDIUM_def mult.commute)

theorem urgency_only_critical_or_low_witness:
  "determineUpdateUrgency (real 45) 30 = Critical
   \<and> determineUpdateUrgency (real 5) 30 = Low
   \<and> determineUpdateUrgency (real 5) 2 = Critical"
  using urgency_only_critical_or_low [of 45 30] urgency_only_critical_or_low [of 5 30]
    urgency_only_critical_or_low [of 5 2]
  by simp

text \<open>
  C10. The E-E-A-T aggregate of the report, and the E-E-A-T term of the overall score, is
  the plain mean of the four component scores, each with weight 0.25; the table
  \<open>EEAT_WEIGHTS\<close> is not used, and gives another value for an analysis with
  expertise 1 and the other three components 0.
\<close>

theorem eeat_aggregate_is_unweighted_mean:
  "calculateEEATAverage exact e / 100
     = (expertise e + experience e + authoritativeness e + trustworthiness e) / 4
   \<and> calculateEEATAverage exact e / 100
     = 0.25 * expertise e + 0.25 * experience e + 0.25 * authoritativeness e
       + 0.25 * trustworthiness e
   \<and> calculateOverallScore exact a k
     = 0.2 * entityScore a + 0.25 * aiCitationPotential a + 0.15 * structureScore a
       + 0.2 * ((expertise (eeatSignals a) + experience (eeatSignals a)
                 + authoritativeness (eeatSignals a) + trustworthiness (eeatSignals a)) / 4)
       + 0.2 * aiVisibilityIndex k
   \<and> calculateEEATAverage exact expertise_only / 100 \<noteq> eeat_weighted expertise_only"
proof (intro conjI)
  show "calculateEEATAverage exact e / 100
     = (expertise e + experience e + authoritativeness e + trustworthiness e) / 4"
    by (simp add: calculateEEATAverage_def exact_def Let_def)
  show "calculateEEATAverage exact e / 100
     = 0.25 * expertise e + 0.25 * experience e + 0.25 * authoritativeness e
       + 0.25 * trustworthiness e"
    by (simp add: calculateEEATAverage_def exact_def Let_def field_simps)
  show "calculateOverallScore exact a k
     = 0.2 * entityScore a + 0.25 * aiCitationPotential a + 0.15 * structureScore a
       + 0.2 * ((expertise (eeatSignals a) + experience (eeatSignals a)
                 + authoritativeness (eeatSignals a) + trustworthiness (eeatSignals a)) / 4)
       + 0.2 * aiVisibilityIndex k"
    by (simp add: overall_exact)
  show "calculateEEATAverage exact expertise_only / 100 \<noteq> eeat_weighted expertise_only"
    by (simp add: calculateEEATAverage_def exact_def Let_def eeat_weighted_def
        expertise_only_def EEAT_WEIGHTS_EXPERTISE_def EEAT_WEIGHTS_EXPERIENCE_def
        EEAT_WEIGHTS_AUTHORITATIVENESS_def EEAT_WEIGHTS_TRUSTWORTHINESS_def)
qed

end
